theory Spec2Isabelle
  imports Main
begin

text \<open>
  The user endpoints of unterstrich (\<^verbatim>\<open>users/users.go\<close>): the structs of the package,
  its six handlers, and as much of the libraries the handlers call (gin's binding,
  \<^verbatim>\<open>encoding/json\<close>, gorm, \<^verbatim>\<open>strconv\<close>, bcrypt) as decides what the handlers
  answer and what they write to the table of users. A handler is a function from the
  request and the database handle to the response and the handle after the call.
\<close>

section \<open>JSON values\<close>

text \<open>
  The request and response bodies of the user endpoints are JSON. A body is modelled
  by the first JSON value it holds (the decoder used by the handlers reads exactly one
  value). Number literals are kept apart by the way Go's decoder tells them apart: a
  literal made of an optional minus sign and digits can be stored in an integer field,
  every other literal (with a fraction or an exponent) only in a floating point field.
  \<open>IntLit n\<close> is the literal of the integer \<open>n\<close>, \<open>NegZero\<close> the literal
  \<^verbatim>\<open>-0\<close> (the one integer literal with a minus sign that \<open>IntLit\<close> does not tell
  apart), and \<open>FracLit m e\<close> a literal with a fraction or an exponent, of the value
  \<open>m * 10 ^ e\<close>. An object keeps its members in the order and with the repetitions of
  the text.
\<close>

datatype number = IntLit int | NegZero | FracLit int int

datatype json =
    JNull
  | JBool bool
  | JNumber number
  | JString string
  | JArray "json list"
  | JObject "(string \<times> json) list"

section \<open>Errors\<close>

datatype error =
    SyntaxError
  | InvalidUnmarshalError
  | UnmarshalTypeError string
  | ValidationError string
  | NumError
  | HashError

section \<open>The data model of \<^verbatim>\<open>users.go\<close>\<close>

text \<open>
  Modelled from the spec: the package \<^verbatim>\<open>model\<close> with the embedded struct
  \<^verbatim>\<open>model.Base\<close> is not among the sources. The handlers read its field
  \<^verbatim>\<open>ID\<close> (\<^verbatim>\<open>user.ID\<close>, an unsigned integer), and the spec gives every record a
  unique numeric \<^verbatim>\<open>id\<close> assigned at creation; that field is all of
  \<^verbatim>\<open>model.Base\<close> that is modelled.
\<close>

record Base =
  ID :: nat

record Address = Base +
  Line1 :: string
  Line2 :: string
  City :: string
  State :: string

record Social = Base +
  Github :: string
  Ello :: string
  Website :: string

record CreationUser =
  Email :: string
  Password :: string
  Username :: string
  Artist :: bool
  Curator :: bool

text \<open>
  \<^verbatim>\<open>User\<close> and \<^verbatim>\<open>Artwork\<close> refer to each other (\<^verbatim>\<open>Artworks []Artwork\<close>,
  \<^verbatim>\<open>Stars []User\<close>), so they are two mutually recursive datatypes with the structs'
  fields as selectors. A pointer field and a slice are options: \<open>None\<close> is Go's
  \<^verbatim>\<open>nil\<close>. A \<^verbatim>\<open>float64\<close> is carried as the literal it was read from; nothing in
  the handlers computes with it.
\<close>

datatype User = User
  (UBase: Base)
  (Email: string)
  (Password: string)
  (Firstname: string)
  (Lastname: string)
  (Username: string)
  (Artist: bool)
  (Curator: bool)
  (Admin: bool)
  (Staff: bool)
  (Address: "Address option")
  (Social: "Social option")
  (Artworks: "Artwork list option")
and Artwork = Artwork
  (ABase: Base)
  (Type: string)
  (URL: string)
  (Thumbnail: string)
  (Name: string)
  (Description: string)
  (Views: int)
  (OwnerID: nat)
  (Stars: "User list option")
  (Public: bool)
  (Price: number)

text \<open>Go's zero values: what \<^verbatim>\<open>var x T\<close> holds.\<close>

definition zero_Base :: Base where
  "zero_Base = \<lparr>ID = 0\<rparr>"

definition zero_Address :: Address where
  "zero_Address = \<lparr>ID = 0, Line1 = [], Line2 = [], City = [], State = []\<rparr>"

definition zero_Social :: Social where
  "zero_Social = \<lparr>ID = 0, Github = [], Ello = [], Website = []\<rparr>"

definition zero_CreationUser :: CreationUser where
  "zero_CreationUser =
     \<lparr>CreationUser.Email = [], CreationUser.Password = [], CreationUser.Username = [],
      CreationUser.Artist = False, CreationUser.Curator = False\<rparr>"

definition zero_User :: User where
  "zero_User = User zero_Base [] [] [] [] [] False False False False None None None"

definition zero_Artwork :: Artwork where
  "zero_Artwork = Artwork zero_Base [] [] [] [] [] 0 0 None False (IntLit 0)"

text \<open>Assignments to one field of a \<^verbatim>\<open>User\<close> or an \<^verbatim>\<open>Artwork\<close>.\<close>

primrec set_UBase :: "Base \<Rightarrow> User \<Rightarrow> User" where
  "set_UBase x (User b e p f l n a c ad s adr so aw) = User x e p f l n a c ad s adr so aw"

primrec set_Email :: "string \<Rightarrow> User \<Rightarrow> User" where
  "set_Email x (User b e p f l n a c ad s adr so aw) = User b x p f l n a c ad s adr so aw"

primrec set_Password :: "string \<Rightarrow> User \<Rightarrow> User" where
  "set_Password x (User b e p f l n a c ad s adr so aw) = User b e x f l n a c ad s adr so aw"

primrec set_Firstname :: "string \<Rightarrow> User \<Rightarrow> User" where
  "set_Firstname x (User b e p f l n a c ad s adr so aw) = User b e p x l n a c ad s adr so aw"

primrec set_Lastname :: "string \<Rightarrow> User \<Rightarrow> User" where
  "set_Lastname x (User b e p f l n a c ad s adr so aw) = User b e p f x n a c ad s adr so aw"

primrec set_Username :: "string \<Rightarrow> User \<Rightarrow> User" where
  "set_Username x (User b e p f l n a c ad s adr so aw) = User b e p f l x a c ad s adr so aw"

primrec set_Artist :: "bool \<Rightarrow> User \<Rightarrow> User" where
  "set_Artist x (User b e p f l n a c ad s adr so aw) = User b e p f l n x c ad s adr so aw"

primrec set_Curator :: "bool \<Rightarrow> User \<Rightarrow> User" where
  "set_Curator x (User b e p f l n a c ad s adr so aw) = User b e p f l n a x ad s adr so aw"

primrec set_Staff :: "bool \<Rightarrow> User \<Rightarrow> User" where
  "set_Staff x (User b e p f l n a c ad s adr so aw) = User b e p f l n a c ad x adr so aw"

primrec set_Address :: "Address option \<Rightarrow> User \<Rightarrow> User" where
  "set_Address x (User b e p f l n a c ad s adr so aw) = User b e p f l n a c ad s x so aw"

primrec set_Social :: "Social option \<Rightarrow> User \<Rightarrow> User" where
  "set_Social x (User b e p f l n a c ad s adr so aw) = User b e p f l n a c ad s adr x aw"

primrec set_Artworks :: "Artwork list option \<Rightarrow> User \<Rightarrow> User" where
  "set_Artworks x (User b e p f l n a c ad s adr so aw) = User b e p f l n a c ad s adr so x"

primrec set_ABase :: "Base \<Rightarrow> Artwork \<Rightarrow> Artwork" where
  "set_ABase x (Artwork b t u th n d v ow st pu pr) = Artwork x t u th n d v ow st pu pr"

primrec set_Type :: "string \<Rightarrow> Artwork \<Rightarrow> Artwork" where
  "set_Type x (Artwork b t u th n d v ow st pu pr) = Artwork b x u th n d v ow st pu pr"

primrec set_URL :: "string \<Rightarrow> Artwork \<Rightarrow> Artwork" where
  "set_URL x (Artwork b t u th n d v ow st pu pr) = Artwork b t x th n d v ow st pu pr"

primrec set_Thumbnail :: "string \<Rightarrow> Artwork \<Rightarrow> Artwork" where
  "set_Thumbnail x (Artwork b t u th n d v ow st pu pr) = Artwork b t u x n d v ow st pu pr"

primrec set_Name :: "string \<Rightarrow> Artwork \<Rightarrow> Artwork" where
  "set_Name x (Artwork b t u th n d v ow st pu pr) = Artwork b t u th x d v ow st pu pr"

primrec set_Description :: "string \<Rightarrow> Artwork \<Rightarrow> Artwork" where
  "set_Description x (Artwork b t u th n d v ow st pu pr) = Artwork b t u th n x v ow st pu pr"

primrec set_Views :: "int \<Rightarrow> Artwork \<Rightarrow> Artwork" where
  "set_Views x (Artwork b t u th n d v ow st pu pr) = Artwork b t u th n d x ow st pu pr"

primrec set_OwnerID :: "nat \<Rightarrow> Artwork \<Rightarrow> Artwork" where
  "set_OwnerID x (Artwork b t u th n d v ow st pu pr) = Artwork b t u th n d v x st pu pr"

primrec set_Stars :: "User list option \<Rightarrow> Artwork \<Rightarrow> Artwork" where
  "set_Stars x (Artwork b t u th n d v ow st pu pr) = Artwork b t u th n d v ow x pu pr"

primrec set_Public :: "bool \<Rightarrow> Artwork \<Rightarrow> Artwork" where
  "set_Public x (Artwork b t u th n d v ow st pu pr) = Artwork b t u th n d v ow st x pr"

primrec set_Price :: "number \<Rightarrow> Artwork \<Rightarrow> Artwork" where
  "set_Price x (Artwork b t u th n d v ow st pu pr) = Artwork b t u th n d v ow st pu x"

section \<open>Decoding: \<^verbatim>\<open>encoding/json\<close> as the handlers use it\<close>

text \<open>
  The decoder matches an object key to a struct field by the field's \<^verbatim>\<open>json\<close> tag
  under Unicode case folding; a field tagged \<^verbatim>\<open>json:"-"\<close> has no key, and a key that
  matches no field is skipped. All tags of this package are lower-case ASCII, so a key
  matches a tag when its folded form equals the tag, where folding lowers the ASCII
  capitals and replaces the two other characters that fold to an ASCII letter: the
  Kelvin sign U+212A (the bytes E2 84 AA in UTF-8) by \<^verbatim>\<open>k\<close> and the long s U+017F
  (the bytes C5 BF) by \<^verbatim>\<open>s\<close>. A string is the sequence of its UTF-8 bytes.
\<close>

definition lower :: "char \<Rightarrow> char" where
  "lower c =
     (case map_of (zip ''ABCDEFGHIJKLMNOPQRSTUVWXYZ'' ''abcdefghijklmnopqrstuvwxyz'') c of
        None \<Rightarrow> c
      | Some d \<Rightarrow> d)"

fun foldName :: "string \<Rightarrow> string" where
  "foldName [] = []"
| "foldName (c # cs) =
     (if c = CHR 0xE2 \<and> take 2 cs = [CHR 0x84, CHR 0xAA] then CHR ''k'' # foldName (drop 2 cs)
      else if c = CHR 0xC5 \<and> take 1 cs = [CHR 0xBF] then CHR ''s'' # foldName (drop 1 cs)
      else lower c # foldName cs)"

text \<open>The decoder keeps the first error it meets and goes on decoding.\<close>

definition saveError :: "error option \<Rightarrow> error option \<Rightarrow> error option" where
  "saveError e1 e2 = (case e1 of None \<Rightarrow> e2 | Some e \<Rightarrow> Some e)"

text \<open>
  Storing a JSON value in a field of a basic type: \<^verbatim>\<open>null\<close> leaves the field as it
  is, a value of the wrong kind (or a number out of the field's range) leaves it as it is
  and is an \<^verbatim>\<open>UnmarshalTypeError\<close>. \<^verbatim>\<open>uint\<close> and \<^verbatim>\<open>int\<close> are 64 bits wide;
  a \<^verbatim>\<open>uint\<close> takes no literal with a minus sign. A \<^verbatim>\<open>float64\<close> takes every
  literal that does not round to an infinity, that is, of an absolute value below
  \<open>2 ^ 1024 - 2 ^ 970\<close>.
\<close>

definition unmarshal_string :: "json \<Rightarrow> string \<Rightarrow> string \<times> error option" where
  "unmarshal_string j old =
     (case j of
        JString s \<Rightarrow> (s, None)
      | JNull \<Rightarrow> (old, None)
      | _ \<Rightarrow> (old, Some (UnmarshalTypeError ''string'')))"

definition unmarshal_bool :: "json \<Rightarrow> bool \<Rightarrow> bool \<times> error option" where
  "unmarshal_bool j old =
     (case j of
        JBool b \<Rightarrow> (b, None)
      | JNull \<Rightarrow> (old, None)
      | _ \<Rightarrow> (old, Some (UnmarshalTypeError ''bool'')))"

definition unmarshal_uint :: "json \<Rightarrow> nat \<Rightarrow> nat \<times> error option" where
  "unmarshal_uint j old =
     (case j of
        JNumber (IntLit n) \<Rightarrow>
          (if 0 \<le> n \<and> n < 2 ^ 64 then (nat n, None)
           else (old, Some (UnmarshalTypeError ''uint'')))
      | JNull \<Rightarrow> (old, None)
      | _ \<Rightarrow> (old, Some (UnmarshalTypeError ''uint'')))"

definition unmarshal_int :: "json \<Rightarrow> int \<Rightarrow> int \<times> error option" where
  "unmarshal_int j old =
     (case j of
        JNumber (IntLit n) \<Rightarrow>
          (if - (2 ^ 63) \<le> n \<and> n < 2 ^ 63 then (n, None)
           else (old, Some (UnmarshalTypeError ''int'')))
      | JNumber NegZero \<Rightarrow> (0, None)
      | JNull \<Rightarrow> (old, None)
      | _ \<Rightarrow> (old, Some (UnmarshalTypeError ''int'')))"

definition float64_range :: "number \<Rightarrow> bool" where
  "float64_range x =
     (case x of
        IntLit n \<Rightarrow> \<bar>n\<bar> < 2 ^ 1024 - 2 ^ 970
      | NegZero \<Rightarrow> True
      | FracLit m e \<Rightarrow>
          (if 0 \<le> e then \<bar>m\<bar> * 10 ^ nat e < 2 ^ 1024 - 2 ^ 970
           else \<bar>m\<bar> < (2 ^ 1024 - 2 ^ 970) * 10 ^ nat (- e)))"

definition unmarshal_float64 :: "json \<Rightarrow> number \<Rightarrow> number \<times> error option" where
  "unmarshal_float64 j old =
     (case j of
        JNumber x \<Rightarrow>
          (if float64_range x then (x, None)
           else (old, Some (UnmarshalTypeError ''float64'')))
      | JNull \<Rightarrow> (old, None)
      | _ \<Rightarrow> (old, Some (UnmarshalTypeError ''float64'')))"

text \<open>
  Decoding an object into a struct: the members are stored one after the other, in the
  order of the text, each by the struct's own \<open>store\<close> function; \<^verbatim>\<open>null\<close> leaves the
  struct as it is and any other value is an \<^verbatim>\<open>UnmarshalTypeError\<close>.
\<close>

fun unmarshal_members ::
  "(string \<Rightarrow> json \<Rightarrow> 'a \<Rightarrow> 'a \<times> error option) \<Rightarrow> (string \<times> json) list \<Rightarrow> 'a \<Rightarrow> 'a \<times> error option"
where
  "unmarshal_members store [] x = (x, None)"
| "unmarshal_members store ((k, v) # ms) x =
     (let (x1, e1) = store (foldName k) v x;
          (x2, e2) = unmarshal_members store ms x1
      in (x2, saveError e1 e2))"

definition unmarshal_struct ::
  "(string \<Rightarrow> json \<Rightarrow> 'a \<Rightarrow> 'a \<times> error option) \<Rightarrow> json \<Rightarrow> 'a \<Rightarrow> 'a \<times> error option"
where
  "unmarshal_struct store j x =
     (case j of
        JObject ms \<Rightarrow> unmarshal_members store ms x
      | JNull \<Rightarrow> (x, None)
      | _ \<Rightarrow> (x, Some (UnmarshalTypeError ''struct'')))"

text \<open>
  Decoding into a pointer field: \<^verbatim>\<open>null\<close> sets the pointer to \<^verbatim>\<open>nil\<close>; any other
  value is decoded into the struct the pointer refers to, a new zero struct when the
  pointer is \<^verbatim>\<open>nil\<close>.
\<close>

definition unmarshal_ptr ::
  "(json \<Rightarrow> 'a \<Rightarrow> 'a \<times> error option) \<Rightarrow> 'a \<Rightarrow> json \<Rightarrow> 'a option \<Rightarrow> 'a option \<times> error option"
where
  "unmarshal_ptr dec zero j p =
     (case j of
        JNull \<Rightarrow> (None, None)
      | _ \<Rightarrow> (let (x, e) = dec j (case p of None \<Rightarrow> zero | Some y \<Rightarrow> y) in (Some x, e)))"

text \<open>The \<^verbatim>\<open>json\<close> tags of \<^verbatim>\<open>CreationUser\<close>, \<^verbatim>\<open>Address\<close> and \<^verbatim>\<open>Social\<close>.\<close>

definition store_CreationUser ::
  "string \<Rightarrow> json \<Rightarrow> CreationUser \<Rightarrow> CreationUser \<times> error option"
where
  "store_CreationUser k v x =
     (if k = ''email'' then
        (let (s, e) = unmarshal_string v (CreationUser.Email x)
         in (x\<lparr>CreationUser.Email := s\<rparr>, e))
      else if k = ''password'' then
        (let (s, e) = unmarshal_string v (CreationUser.Password x)
         in (x\<lparr>CreationUser.Password := s\<rparr>, e))
      else if k = ''username'' then
        (let (s, e) = unmarshal_string v (CreationUser.Username x)
         in (x\<lparr>CreationUser.Username := s\<rparr>, e))
      else if k = ''is_artist'' then
        (let (b, e) = unmarshal_bool v (CreationUser.Artist x)
         in (x\<lparr>CreationUser.Artist := b\<rparr>, e))
      else if k = ''is_curator'' then
        (let (b, e) = unmarshal_bool v (CreationUser.Curator x)
         in (x\<lparr>CreationUser.Curator := b\<rparr>, e))
      else (x, None))"

definition unmarshal_CreationUser :: "json \<Rightarrow> CreationUser \<Rightarrow> CreationUser \<times> error option" where
  "unmarshal_CreationUser = unmarshal_struct store_CreationUser"

definition store_Address :: "string \<Rightarrow> json \<Rightarrow> Address \<Rightarrow> Address \<times> error option" where
  "store_Address k v x =
     (if k = ''id'' then (let (n, e) = unmarshal_uint v (ID x) in (x\<lparr>ID := n\<rparr>, e))
      else if k = ''line1'' then (let (s, e) = unmarshal_string v (Line1 x) in (x\<lparr>Line1 := s\<rparr>, e))
      else if k = ''line2'' then (let (s, e) = unmarshal_string v (Line2 x) in (x\<lparr>Line2 := s\<rparr>, e))
      else if k = ''city'' then (let (s, e) = unmarshal_string v (City x) in (x\<lparr>City := s\<rparr>, e))
      else if k = ''state'' then (let (s, e) = unmarshal_string v (State x) in (x\<lparr>State := s\<rparr>, e))
      else (x, None))"

definition unmarshal_Address :: "json \<Rightarrow> Address \<Rightarrow> Address \<times> error option" where
  "unmarshal_Address = unmarshal_struct store_Address"

definition store_Social :: "string \<Rightarrow> json \<Rightarrow> Social \<Rightarrow> Social \<times> error option" where
  "store_Social k v x =
     (if k = ''id'' then (let (n, e) = unmarshal_uint v (ID x) in (x\<lparr>ID := n\<rparr>, e))
      else if k = ''github'' then (let (s, e) = unmarshal_string v (Github x) in (x\<lparr>Github := s\<rparr>, e))
      else if k = ''ello'' then (let (s, e) = unmarshal_string v (Ello x) in (x\<lparr>Ello := s\<rparr>, e))
      else if k = ''website'' then (let (s, e) = unmarshal_string v (Website x) in (x\<lparr>Website := s\<rparr>, e))
      else (x, None))"

definition unmarshal_Social :: "json \<Rightarrow> Social \<Rightarrow> Social \<times> error option" where
  "unmarshal_Social = unmarshal_struct store_Social"

text \<open>
  The \<^verbatim>\<open>json\<close> tags of \<^verbatim>\<open>User\<close> and \<^verbatim>\<open>Artwork\<close>. \<^verbatim>\<open>Password\<close> and
  \<^verbatim>\<open>Admin\<close> are tagged \<^verbatim>\<open>json:"-"\<close>: no key stores into them. The value decoded
  for the slice field (\<open>aw\<close>, \<open>st\<close>) is passed in, since decoding it is the recursive
  part.
\<close>

definition store_User ::
  "string \<Rightarrow> json \<Rightarrow> Artwork list option \<times> error option \<Rightarrow> User \<Rightarrow> User \<times> error option"
where
  "store_User k v aw u =
     (if k = ''id'' then
        (let (n, e) = unmarshal_uint v (ID (UBase u)) in (set_UBase ((UBase u)\<lparr>ID := n\<rparr>) u, e))
      else if k = ''email'' then
        (let (s, e) = unmarshal_string v (Email u) in (set_Email s u, e))
      else if k = ''firstname'' then
        (let (s, e) = unmarshal_string v (Firstname u) in (set_Firstname s u, e))
      else if k = ''lastname'' then
        (let (s, e) = unmarshal_string v (Lastname u) in (set_Lastname s u, e))
      else if k = ''username'' then
        (let (s, e) = unmarshal_string v (Username u) in (set_Username s u, e))
      else if k = ''is_artist'' then
        (let (b, e) = unmarshal_bool v (Artist u) in (set_Artist b u, e))
      else if k = ''is_curator'' then
        (let (b, e) = unmarshal_bool v (Curator u) in (set_Curator b u, e))
      else if k = ''is_staff'' then
        (let (b, e) = unmarshal_bool v (Staff u) in (set_Staff b u, e))
      else if k = ''address'' then
        (let (a, e) = unmarshal_ptr unmarshal_Address zero_Address v (Address u)
         in (set_Address a u, e))
      else if k = ''social'' then
        (let (s, e) = unmarshal_ptr unmarshal_Social zero_Social v (Social u)
         in (set_Social s u, e))
      else if k = ''artworks'' then (set_Artworks (fst aw) u, snd aw)
      else (u, None))"

definition store_Artwork ::
  "string \<Rightarrow> json \<Rightarrow> User list option \<times> error option \<Rightarrow> Artwork \<Rightarrow> Artwork \<times> error option"
where
  "store_Artwork k v st a =
     (if k = ''id'' then
        (let (n, e) = unmarshal_uint v (ID (ABase a)) in (set_ABase ((ABase a)\<lparr>ID := n\<rparr>) a, e))
      else if k = ''type'' then
        (let (s, e) = unmarshal_string v (Type a) in (set_Type s a, e))
      else if k = ''url'' then
        (let (s, e) = unmarshal_string v (URL a) in (set_URL s a, e))
      else if k = ''thumbnail'' then
        (let (s, e) = unmarshal_string v (Thumbnail a) in (set_Thumbnail s a, e))
      else if k = ''name'' then
        (let (s, e) = unmarshal_string v (Name a) in (set_Name s a, e))
      else if k = ''description'' then
        (let (s, e) = unmarshal_string v (Description a) in (set_Description s a, e))
      else if k = ''views'' then
        (let (n, e) = unmarshal_int v (Views a) in (set_Views n a, e))
      else if k = ''owner'' then
        (let (n, e) = unmarshal_uint v (OwnerID a) in (set_OwnerID n a, e))
      else if k = ''stars'' then (set_Stars (fst st) a, snd st)
      else if k = ''public'' then
        (let (b, e) = unmarshal_bool v (Public a) in (set_Public b a, e))
      else if k = ''price'' then
        (let (x, e) = unmarshal_float64 v (Price a) in (set_Price x a, e))
      else (a, None))"

text \<open>
  Decoding into \<^verbatim>\<open>User\<close> and \<^verbatim>\<open>Artwork\<close>. A slice is decoded from an array
  element by element, the \<open>i\<close>-th element into the \<open>i\<close>-th element the slice already
  has (a zero struct beyond its length), and the slice ends with the array's length;
  \<^verbatim>\<open>null\<close> sets the slice to \<^verbatim>\<open>nil\<close>.
\<close>

function unmarshal_User :: "json \<Rightarrow> User \<Rightarrow> User \<times> error option"
  and unmarshal_User_members :: "(string \<times> json) list \<Rightarrow> User \<Rightarrow> User \<times> error option"
  and unmarshal_Artworks :: "json \<Rightarrow> Artwork list option \<Rightarrow> Artwork list option \<times> error option"
  and unmarshal_Artwork_elems :: "json list \<Rightarrow> Artwork list \<Rightarrow> Artwork list \<times> error option"
  and unmarshal_Artwork :: "json \<Rightarrow> Artwork \<Rightarrow> Artwork \<times> error option"
  and unmarshal_Artwork_members :: "(string \<times> json) list \<Rightarrow> Artwork \<Rightarrow> Artwork \<times> error option"
  and unmarshal_Users :: "json \<Rightarrow> User list option \<Rightarrow> User list option \<times> error option"
  and unmarshal_User_elems :: "json list \<Rightarrow> User list \<Rightarrow> User list \<times> error option"
where
  "unmarshal_User (JObject ms) u = unmarshal_User_members ms u"
| "unmarshal_User JNull u = (u, None)"
| "unmarshal_User (JBool b) u = (u, Some (UnmarshalTypeError ''struct''))"
| "unmarshal_User (JNumber n) u = (u, Some (UnmarshalTypeError ''struct''))"
| "unmarshal_User (JString s) u = (u, Some (UnmarshalTypeError ''struct''))"
| "unmarshal_User (JArray js) u = (u, Some (UnmarshalTypeError ''struct''))"
| "unmarshal_User_members [] u = (u, None)"
| "unmarshal_User_members ((k, v) # ms) u =
     (let (u1, e1) = store_User (foldName k) v (unmarshal_Artworks v (Artworks u)) u;
          (u2, e2) = unmarshal_User_members ms u1
      in (u2, saveError e1 e2))"
| "unmarshal_Artworks (JArray js) old =
     (let (xs, e) = unmarshal_Artwork_elems js (case old of None \<Rightarrow> [] | Some ys \<Rightarrow> ys)
      in (Some xs, e))"
| "unmarshal_Artworks JNull old = (None, None)"
| "unmarshal_Artworks (JBool b) old = (old, Some (UnmarshalTypeError ''slice''))"
| "unmarshal_Artworks (JNumber n) old = (old, Some (UnmarshalTypeError ''slice''))"
| "unmarshal_Artworks (JString s) old = (old, Some (UnmarshalTypeError ''slice''))"
| "unmarshal_Artworks (JObject ms) old = (old, Some (UnmarshalTypeError ''slice''))"
| "unmarshal_Artwork_elems [] olds = ([], None)"
| "unmarshal_Artwork_elems (j # js) olds =
     (let (a, e1) = unmarshal_Artwork j (case olds of [] \<Rightarrow> zero_Artwork | y # ys \<Rightarrow> y);
          (xs, e2) = unmarshal_Artwork_elems js (tl olds)
      in (a # xs, saveError e1 e2))"
| "unmarshal_Artwork (JObject ms) a = unmarshal_Artwork_members ms a"
| "unmarshal_Artwork JNull a = (a, None)"
| "unmarshal_Artwork (JBool b) a = (a, Some (UnmarshalTypeError ''struct''))"
| "unmarshal_Artwork (JNumber n) a = (a, Some (UnmarshalTypeError ''struct''))"
| "unmarshal_Artwork (JString s) a = (a, Some (UnmarshalTypeError ''struct''))"
| "unmarshal_Artwork (JArray js) a = (a, Some (UnmarshalTypeError ''struct''))"
| "unmarshal_Artwork_members [] a = (a, None)"
| "unmarshal_Artwork_members ((k, v) # ms) a =
     (let (a1, e1) = store_Artwork (foldName k) v (unmarshal_Users v (Stars a)) a;
          (a2, e2) = unmarshal_Artwork_members ms a1
      in (a2, saveError e1 e2))"
| "unmarshal_Users (JArray js) old =
     (let (xs, e) = unmarshal_User_elems js (case old of None \<Rightarrow> [] | Some ys \<Rightarrow> ys)
      in (Some xs, e))"
| "unmarshal_Users JNull old = (None, None)"
| "unmarshal_Users (JBool b) old = (old, Some (UnmarshalTypeError ''slice''))"
| "unmarshal_Users (JNumber n) old = (old, Some (UnmarshalTypeError ''slice''))"
| "unmarshal_Users (JString s) old = (old, Some (UnmarshalTypeError ''slice''))"
| "unmarshal_Users (JObject ms) old = (old, Some (UnmarshalTypeError ''slice''))"
| "unmarshal_User_elems [] olds = ([], None)"
| "unmarshal_User_elems (j # js) olds =
     (let (u, e1) = unmarshal_User j (case olds of [] \<Rightarrow> zero_User | y # ys \<Rightarrow> y);
          (xs, e2) = unmarshal_User_elems js (tl olds)
      in (u # xs, saveError e1 e2))"
  by pat_completeness auto

text \<open>Every call is on a strictly smaller part of the JSON value.\<close>

termination
  by (relation "measure
        (case_sum
          (case_sum
            (case_sum (\<lambda>(j, u). size j) (\<lambda>(ms, u). size_list (size_prod (\<lambda>k. 0) size) ms))
            (case_sum (\<lambda>(j, old). size j) (\<lambda>(js, olds). size_list size js)))
          (case_sum
            (case_sum (\<lambda>(j, a). size j) (\<lambda>(ms, a). size_list (size_prod (\<lambda>k. 0) size) ms))
            (case_sum (\<lambda>(j, old). size j) (\<lambda>(js, olds). size_list size js))))")
     auto

section \<open>Encoding: what \<^verbatim>\<open>c.JSON\<close> writes\<close>

text \<open>
  A struct is written as an object with one member per field that has a key, in the
  order of the fields; the fields tagged \<^verbatim>\<open>json:"-"\<close> (\<^verbatim>\<open>Password\<close>,
  \<^verbatim>\<open>Admin\<close>) are left out. A \<^verbatim>\<open>nil\<close> pointer or slice is written \<^verbatim>\<open>null\<close>.
  The fields of the embedded \<^verbatim>\<open>model.Base\<close> come first; its \<^verbatim>\<open>ID\<close> has the key
  \<^verbatim>\<open>id\<close>, as in the record shapes of the spec.
\<close>

definition marshal_uint :: "nat \<Rightarrow> json" where
  "marshal_uint n = JNumber (IntLit (int n))"

definition marshal_Address :: "Address \<Rightarrow> json" where
  "marshal_Address x =
     JObject [(''id'', marshal_uint (ID x)), (''line1'', JString (Line1 x)),
              (''line2'', JString (Line2 x)), (''city'', JString (City x)),
              (''state'', JString (State x))]"

definition marshal_Social :: "Social \<Rightarrow> json" where
  "marshal_Social x =
     JObject [(''id'', marshal_uint (ID x)), (''github'', JString (Github x)),
              (''ello'', JString (Ello x)), (''website'', JString (Website x))]"

definition marshal_nil :: "json option \<Rightarrow> json" where
  "marshal_nil p = (case p of None \<Rightarrow> JNull | Some j \<Rightarrow> j)"

primrec marshal_User :: "User \<Rightarrow> json"
  and marshal_Artwork :: "Artwork \<Rightarrow> json"
where
  "marshal_User (User b e p f l n a c ad s adr so aw) =
     JObject [(''id'', marshal_uint (ID b)),
              (''email'', JString e),
              (''firstname'', JString f),
              (''lastname'', JString l),
              (''username'', JString n),
              (''is_artist'', JBool a),
              (''is_curator'', JBool c),
              (''is_staff'', JBool s),
              (''address'', marshal_nil (map_option marshal_Address adr)),
              (''social'', marshal_nil (map_option marshal_Social so)),
              (''artworks'', marshal_nil (map_option JArray (map_option (map marshal_Artwork) aw)))]"
| "marshal_Artwork (Artwork b t u th n d v ow st pu pr) =
     JObject [(''id'', marshal_uint (ID b)),
              (''type'', JString t),
              (''url'', JString u),
              (''thumbnail'', JString th),
              (''name'', JString n),
              (''description'', JString d),
              (''views'', JNumber (IntLit v)),
              (''owner'', marshal_uint ow),
              (''stars'', marshal_nil (map_option JArray (map_option (map marshal_User) st))),
              (''public'', JBool pu),
              (''price'', JNumber pr)]"

section \<open>gin: the request context and \<^verbatim>\<open>ShouldBindJSON\<close>\<close>

text \<open>
  Of the request the handlers read the path parameter \<^verbatim>\<open>id\<close>, the body and, through
  \<^verbatim>\<open>jwt.ExtractClaims\<close>, the claim \<^verbatim>\<open>id\<close> (the user name the token was issued
  for). \<open>Body\<close> is \<open>None\<close> when the body does not start with a JSON value;
  \<open>Claim_id\<close> is \<open>None\<close> when the request carries no such claim, as on the route
  \<^verbatim>\<open>POST /users\<close>, which is registered without the authentication middleware.
\<close>

record Context =
  Param_id :: string
  Body :: "json option"
  Claim_id :: "string option"

text \<open>
  The validation run after decoding: a field tagged \<^verbatim>\<open>binding:"required"\<close> must
  not hold its zero value.
\<close>

definition validate_CreationUser :: "CreationUser \<Rightarrow> error option" where
  "validate_CreationUser x =
     (if CreationUser.Email x = [] then Some (ValidationError ''Email'')
      else if CreationUser.Password x = [] then Some (ValidationError ''Password'')
      else if CreationUser.Username x = [] then Some (ValidationError ''Username'')
      else None)"

definition validate_User :: "User \<Rightarrow> error option" where
  "validate_User u =
     (if Email u = [] then Some (ValidationError ''Email'')
      else if Username u = [] then Some (ValidationError ''Username'')
      else None)"

text \<open>
  \<^verbatim>\<open>c.ShouldBindJSON(obj)\<close>: \<open>obj\<close> is the pointer the handler passes, \<open>None\<close> for
  a \<^verbatim>\<open>nil\<close> pointer and \<open>Some x\<close> for a pointer to a struct holding \<open>x\<close>. The
  decoder first reads the value (a syntax error if there is none), refuses a \<^verbatim>\<open>nil\<close>
  pointer with an \<^verbatim>\<open>InvalidUnmarshalError\<close>, decodes into the struct, and the
  binding then validates it. The result is the error, or the struct as bound.
\<close>

definition ShouldBindJSON ::
  "(json \<Rightarrow> 'a \<Rightarrow> 'a \<times> error option) \<Rightarrow> ('a \<Rightarrow> error option) \<Rightarrow> Context \<Rightarrow> 'a option \<Rightarrow> error + 'a"
where
  "ShouldBindJSON unmarshal validate c obj =
     (case Body c of
        None \<Rightarrow> Inl SyntaxError
      | Some j \<Rightarrow>
          (case obj of
             None \<Rightarrow> Inl InvalidUnmarshalError
           | Some x \<Rightarrow>
               (let (x', e) = unmarshal j x
                in case e of
                     Some err \<Rightarrow> Inl err
                   | None \<Rightarrow> (case validate x' of Some err \<Rightarrow> Inl err | None \<Rightarrow> Inr x'))))"

section \<open>\<^verbatim>\<open>strconv.Atoi\<close> and \<^verbatim>\<open>bcrypt.GenerateFromPassword\<close>\<close>

text \<open>
  \<^verbatim>\<open>strconv.Atoi\<close> accepts an optional sign followed by at least one decimal digit
  and nothing else, and a value that fits the 64-bit \<^verbatim>\<open>int\<close>.
\<close>

definition digit :: "char \<Rightarrow> int option" where
  "digit c = map_of (zip ''0123456789'' [0, 1, 2, 3, 4, 5, 6, 7, 8, 9]) c"

fun digits :: "string \<Rightarrow> int \<Rightarrow> int option" where
  "digits [] n = Some n"
| "digits (c # cs) n = (case digit c of None \<Rightarrow> None | Some d \<Rightarrow> digits cs (10 * n + d))"

definition Atoi :: "string \<Rightarrow> error + int" where
  "Atoi s =
     (let (neg, ds) =
            (case s of
               [] \<Rightarrow> (False, s)
             | c # cs \<Rightarrow>
                 if c = CHR ''-'' then (True, cs)
                 else if c = CHR ''+'' then (False, cs)
                 else (False, s))
      in if ds = [] then Inl NumError
         else
           (case digits ds 0 of
              None \<Rightarrow> Inl NumError
            | Some n \<Rightarrow>
                (let v = (if neg then - n else n)
                 in if - (2 ^ 63) \<le> v \<and> v < 2 ^ 63 then Inr v else Inl NumError)))"

text \<open>
  \<^verbatim>\<open>bcrypt.GenerateFromPassword(password, cost)\<close> salts the password with random
  bytes, so its result is not a function of the program's state. The handler is modelled
  for an arbitrary such function, passed as a parameter: the hash, or the error the
  library returned.
\<close>

type_synonym bcrypt = "string \<Rightarrow> nat \<Rightarrow> error + string"

section \<open>gorm: the table of users\<close>

text \<open>
  The database handle holds the rows of the table \<^verbatim>\<open>users\<close>, the last primary key
  the table handed out, and the calls the handlers made on the handle, in order. A row
  holds the columns of a \<^verbatim>\<open>User\<close>; the associations (\<^verbatim>\<open>Address\<close>,
  \<^verbatim>\<open>Social\<close>, \<^verbatim>\<open>Artworks\<close>) live in tables of their own, which no handler of this
  package reads. \<^verbatim>\<open>AutoMigrate(&User{}, ...)\<close> creates the table from the struct,
  whose fields carry no \<^verbatim>\<open>gorm\<close> tag: the primary key is the only unique column.
\<close>

datatype db_call =
    Call_Find
  | Call_First int
  | Call_Where_First "string option"
  | Call_Create
  | Call_Delete
  | Call_Save

record DB =
  users :: "User list"
  last_id :: nat
  calls :: "db_call list"

definition called :: "db_call \<Rightarrow> DB \<Rightarrow> DB" where
  "called q db = db\<lparr>calls := calls db @ [q]\<rparr>"

definition row_of :: "User \<Rightarrow> User" where
  "row_of u = set_Artworks None (set_Social None (set_Address None u))"

text \<open>Reading a row into a struct sets the struct's columns and leaves its associations.\<close>

definition scan :: "User \<Rightarrow> User \<Rightarrow> User" where
  "scan r out = set_Artworks (Artworks out) (set_Social (Social out) (set_Address (Address out) r))"

text \<open>\<^verbatim>\<open>First\<close> orders by primary key: the matching row with the least \<^verbatim>\<open>ID\<close>.\<close>

definition first_row :: "(User \<Rightarrow> bool) \<Rightarrow> User list \<Rightarrow> User option" where
  "first_row P rows =
     (case filter P rows of
        [] \<Rightarrow> None
      | r # rs \<Rightarrow> Some (arg_min_list (\<lambda>x. ID (UBase x)) (r # rs)))"

text \<open>
  \<^verbatim>\<open>db.First(out, id)\<close> with a pointer \<open>out\<close>. Go passes the pointer by value: the
  call can write to the struct the pointer refers to, never to the caller's pointer
  variable. With a \<^verbatim>\<open>nil\<close> pointer there is no struct to write to and the pointer is
  \<^verbatim>\<open>nil\<close> after the call; otherwise the struct holds the row found, or is left as it
  was when no row has that primary key. The result is the struct behind the pointer
  after the call.
\<close>

definition db_First :: "DB \<Rightarrow> User option \<Rightarrow> int \<Rightarrow> User option \<times> DB" where
  "db_First db out id' =
     (case out of
        None \<Rightarrow> (None, called (Call_First id') db)
      | Some u \<Rightarrow>
          (case first_row (\<lambda>r. int (ID (UBase r)) = id') (users db) of
             None \<Rightarrow> (Some u, called (Call_First id') db)
           | Some r \<Rightarrow> (Some (scan r u), called (Call_First id') db)))"

text \<open>
  \<^verbatim>\<open>db.First(other, id)\<close> with a struct \<open>other\<close> passed by value (line 222): the
  call receives a copy, and the caller's variable keeps its value. What gorm does when
  it finds a row and has no address to write it to (it panics) is left out: the handler
  returns before line 222 on every request, as shown below for the \<^verbatim>\<open>nil\<close> pointer.
\<close>

definition db_First_value :: "DB \<Rightarrow> User \<Rightarrow> int \<Rightarrow> User \<times> DB" where
  "db_First_value db other id' = (other, called (Call_First id') db)"

text \<open>
  \<^verbatim>\<open>db.Where("username = ?", claims["id"]).First(&me)\<close>: the row is read into
  \<open>me\<close>; with no matching row, or no claim, \<open>me\<close> is left as it was. The error the
  call returns is dropped by every caller.
\<close>

definition db_Where_username_First :: "DB \<Rightarrow> string option \<Rightarrow> User \<Rightarrow> User \<times> DB" where
  "db_Where_username_First db name me =
     (case name of
        None \<Rightarrow> (me, called (Call_Where_First name) db)
      | Some n \<Rightarrow>
          (case first_row (\<lambda>r. Username r = n) (users db) of
             None \<Rightarrow> (me, called (Call_Where_First name) db)
           | Some r \<Rightarrow> (scan r me, called (Call_Where_First name) db)))"

text \<open>\<^verbatim>\<open>db.Find(&users)\<close>: all rows, as the table returns them, by primary key.\<close>

definition db_Find :: "DB \<Rightarrow> User list \<times> DB" where
  "db_Find db = (sort_key (\<lambda>r. ID (UBase r)) (users db), called Call_Find db)"

text \<open>\<^verbatim>\<open>db.NewRecord(user)\<close>: whether the primary key of \<open>user\<close> is blank.\<close>

definition db_NewRecord :: "User \<Rightarrow> bool" where
  "db_NewRecord u = (ID (UBase u) = 0)"

text \<open>
  \<^verbatim>\<open>db.Create(&user)\<close> inserts a row. A blank primary key is filled in by the table
  with a key greater than every key in use, and written back to \<open>user\<close>; a row whose
  primary key is taken is not inserted.
\<close>

definition fresh_id :: "DB \<Rightarrow> nat" where
  "fresh_id db = Suc (fold max (map (\<lambda>r. ID (UBase r)) (users db)) (last_id db))"

definition db_Create :: "DB \<Rightarrow> User \<Rightarrow> User \<times> DB" where
  "db_Create db u =
     (if ID (UBase u) = 0 then
        (let u' = set_UBase ((UBase u)\<lparr>ID := fresh_id db\<rparr>) u
         in (u', called Call_Create (db\<lparr>users := users db @ [row_of u'], last_id := fresh_id db\<rparr>)))
      else if ID (UBase u) \<in> set (map (\<lambda>r. ID (UBase r)) (users db)) then
        (u, called Call_Create db)
      else (u, called Call_Create (db\<lparr>users := users db @ [row_of u]\<rparr>)))"

text \<open>
  \<^verbatim>\<open>db.Delete(&user)\<close> deletes the row with the primary key of \<open>user\<close>; with a
  blank primary key gorm deletes every row of the table.
\<close>

definition db_Delete :: "DB \<Rightarrow> User \<Rightarrow> DB" where
  "db_Delete db u =
     (if ID (UBase u) = 0 then called Call_Delete (db\<lparr>users := []\<rparr>)
      else called Call_Delete (db\<lparr>users := filter (\<lambda>r. ID (UBase r) \<noteq> ID (UBase u)) (users db)\<rparr>))"

text \<open>
  \<^verbatim>\<open>db.Save(&user)\<close> creates the row when the primary key is blank, updates all
  columns of the row with that key otherwise, and inserts it when there is no such row.
\<close>

definition db_Save :: "DB \<Rightarrow> User \<Rightarrow> User \<times> DB" where
  "db_Save db u =
     (if ID (UBase u) = 0 then
        (let (u', db') = db_Create db u in (u', db'\<lparr>calls := calls db @ [Call_Save]\<rparr>))
      else if ID (UBase u) \<in> set (map (\<lambda>r. ID (UBase r)) (users db)) then
        (u, called Call_Save
              (db\<lparr>users := map (\<lambda>r. if ID (UBase r) = ID (UBase u) then row_of u else r) (users db)\<rparr>))
      else (u, called Call_Save (db\<lparr>users := users db @ [row_of u]\<rparr>)))"

section \<open>Responses\<close>

text \<open>
  A handler answers with \<^verbatim>\<open>c.String(code, format, values...)\<close> or
  \<^verbatim>\<open>c.JSON(code, obj)\<close>. The text of an error and the string made of a code point
  (\<^verbatim>\<open>string(user.ID)\<close>) are kept as they are passed, not rendered.

  Each handler is a sequence of guards, every one of which may answer and return. Next
  to the status and the payload, every answer of the model is labelled with the guards
  that stand before it in the source, in their order there: the label says which
  \<^verbatim>\<open>return\<close> of the handler gave the answer.
\<close>

datatype arg = ErrorArg error | RuneArg nat

datatype payload = Text string "arg list" | JSON json

datatype check =
    ParamNumeric
  | BodyBinds
  | TargetLoaded
  | AlreadyPresent
  | RecordExists
  | PrivilegeFlags
  | SamePrincipal
  | PasswordHashed

record Response =
  status :: nat
  payload :: payload
  checks :: "check list"

abbreviation StatusOK :: nat where "StatusOK \<equiv> 200"
abbreviation StatusBadRequest :: nat where "StatusBadRequest \<equiv> 400"
abbreviation StatusForbidden :: nat where "StatusForbidden \<equiv> 403"
abbreviation StatusNotFound :: nat where "StatusNotFound \<equiv> 404"
abbreviation StatusInternalServerError :: nat where "StatusInternalServerError \<equiv> 500"

definition String :: "check list \<Rightarrow> nat \<Rightarrow> string \<Rightarrow> arg list \<Rightarrow> Response" where
  "String cs code format values = \<lparr>status = code, payload = Text format values, checks = cs\<rparr>"

definition Json :: "check list \<Rightarrow> nat \<Rightarrow> json \<Rightarrow> Response" where
  "Json cs code obj = \<lparr>status = code, payload = JSON obj, checks = cs\<rparr>"

section \<open>The handlers\<close>

text \<open>\<^verbatim>\<open>GetUsers\<close> (lines 97-101).\<close>

definition GetUsers :: "Context \<Rightarrow> DB \<Rightarrow> Response \<times> DB" where
  "GetUsers c db =
     (let (us, db1) = db_Find db
      in (Json [] StatusOK (JArray (map marshal_User us)), db1))"

text \<open>
  \<^verbatim>\<open>GetUser\<close> (lines 104-121). \<^verbatim>\<open>var user *User\<close> declares a \<^verbatim>\<open>nil\<close>
  pointer, and that pointer is what \<^verbatim>\<open>db.First\<close> is given.
\<close>

definition GetUser :: "Context \<Rightarrow> DB \<Rightarrow> Response \<times> DB" where
  "GetUser c db =
     (case Atoi (Param_id c) of
        Inl err \<Rightarrow>
          (String [ParamNumeric] StatusBadRequest ''ID must be numerical: '' [ErrorArg err], db)
      | Inr id' \<Rightarrow>
          (let (user, db1) = db_First db None id'
           in case user of
                None \<Rightarrow>
                  (String [ParamNumeric, TargetLoaded] StatusNotFound ''Invalid ID: not found'' [],
                   db1)
              | Some u \<Rightarrow>
                  (Json [ParamNumeric, TargetLoaded] StatusOK (marshal_User u), db1)))"

text \<open>\<^verbatim>\<open>GetMe\<close> (lines 124-130).\<close>

definition GetMe :: "Context \<Rightarrow> DB \<Rightarrow> Response \<times> DB" where
  "GetMe c db =
     (let (me, db1) = db_Where_username_First db (Claim_id c) zero_User
      in (Json [] StatusOK (marshal_User me), db1))"

text \<open>
  \<^verbatim>\<open>CreateUser\<close> (lines 133-168). \<^verbatim>\<open>jsonuser\<close> and \<^verbatim>\<open>user\<close> are structs, so
  \<^verbatim>\<open>&jsonuser\<close> is never \<^verbatim>\<open>nil\<close>; \<^verbatim>\<open>user\<close> starts as the zero value and gets the
  five fields of \<^verbatim>\<open>jsonuser\<close>.
\<close>

definition CreateUser :: "bcrypt \<Rightarrow> Context \<Rightarrow> DB \<Rightarrow> Response \<times> DB" where
  "CreateUser GenerateFromPassword c db =
     (case ShouldBindJSON unmarshal_CreationUser validate_CreationUser c (Some zero_CreationUser) of
        Inl err \<Rightarrow>
          (String [BodyBinds] StatusBadRequest ''Invalid body: '' [ErrorArg err], db)
      | Inr jsonuser \<Rightarrow>
          (let user =
                 set_Curator (CreationUser.Curator jsonuser)
                   (set_Artist (CreationUser.Artist jsonuser)
                     (set_Password (CreationUser.Password jsonuser)
                       (set_Username (CreationUser.Username jsonuser)
                         (set_Email (CreationUser.Email jsonuser) zero_User))))
           in if \<not> db_NewRecord user then
                (String [BodyBinds, AlreadyPresent] StatusBadRequest ''User already present: ''
                   [RuneArg (ID (UBase user))],
                 db)
              else if Staff user \<or> Admin user then
                (String [BodyBinds, AlreadyPresent, PrivilegeFlags] StatusForbidden
                   ''Cannot create admin user'' [],
                 db)
              else
                (case GenerateFromPassword (Password user) 12 of
                   Inl err \<Rightarrow>
                     (String [BodyBinds, AlreadyPresent, PrivilegeFlags, PasswordHashed]
                        StatusInternalServerError [] [],
                      db)
                 | Inr pw \<Rightarrow>
                     (let (user', db1) = db_Create db (set_Password pw user)
                      in (Json [BodyBinds, AlreadyPresent, PrivilegeFlags, PasswordHashed]
                            StatusOK (marshal_User user'),
                          db1)))))"

text \<open>\<^verbatim>\<open>DeleteUser\<close> (lines 171-199), with the same \<^verbatim>\<open>nil\<close> pointer as \<^verbatim>\<open>GetUser\<close>.\<close>

definition DeleteUser :: "Context \<Rightarrow> DB \<Rightarrow> Response \<times> DB" where
  "DeleteUser c db =
     (case Atoi (Param_id c) of
        Inl err \<Rightarrow>
          (String [ParamNumeric] StatusBadRequest ''Invalid ID: must be numerical'' [], db)
      | Inr id' \<Rightarrow>
          (let (user, db1) = db_First db None id'
           in case user of
                None \<Rightarrow> (String [ParamNumeric, TargetLoaded] StatusNotFound ''Not found'' [], db1)
              | Some u \<Rightarrow>
                  (let (me, db2) = db_Where_username_First db1 (Claim_id c) zero_User
                   in if ID (UBase u) \<noteq> ID (UBase me) then
                        (String [ParamNumeric, TargetLoaded, SamePrincipal] StatusForbidden
                           ''Cannot alter foreign user'' [],
                         db2)
                      else
                        (String [ParamNumeric, TargetLoaded, SamePrincipal] StatusOK [] [],
                         db_Delete db2 u))))"

text \<open>
  \<^verbatim>\<open>UpdateUser\<close> (lines 202-241). The pointer given to \<^verbatim>\<open>ShouldBindJSON\<close> is the
  \<^verbatim>\<open>nil\<close> pointer of \<^verbatim>\<open>var user *User\<close>; \<^verbatim>\<open>other\<close> is a struct passed to
  \<^verbatim>\<open>db.First\<close> by value.
\<close>

definition UpdateUser :: "Context \<Rightarrow> DB \<Rightarrow> Response \<times> DB" where
  "UpdateUser c db =
     (case Atoi (Param_id c) of
        Inl err \<Rightarrow>
          (String [ParamNumeric] StatusBadRequest ''Invalid ID: must be numerical'' [], db)
      | Inr id' \<Rightarrow>
          (case ShouldBindJSON unmarshal_User validate_User c None of
             Inl err \<Rightarrow>
               (String [ParamNumeric, BodyBinds] StatusBadRequest ''Invalid body: '' [ErrorArg err],
                db)
           | Inr user \<Rightarrow>
               if db_NewRecord user then
                 (String [ParamNumeric, BodyBinds, RecordExists] StatusNotFound ''Not found'' [], db)
               else
                 (let (other, db1) = db_First_value db zero_User id'
                  in if (Staff user \<and> \<not> Staff other) \<or> (Admin user \<and> \<not> Admin other) then
                       (String [ParamNumeric, BodyBinds, RecordExists, PrivilegeFlags]
                          StatusForbidden ''Cannot make user admin'' [],
                        db1)
                     else
                       (let (me, db2) = db_Where_username_First db1 (Claim_id c) zero_User
                        in if ID (UBase user) \<noteq> ID (UBase me) then
                             (String [ParamNumeric, BodyBinds, RecordExists, PrivilegeFlags,
                                      SamePrincipal]
                                StatusForbidden ''Cannot alter foreign user'' [],
                              db2)
                           else
                             (let (user', db3) = db_Save db2 user
                              in (Json [ParamNumeric, BodyBinds, RecordExists, PrivilegeFlags,
                                        SamePrincipal]
                                    StatusOK (marshal_User user'),
                                  db3))))))"

section \<open>Sample requests and tables\<close>

text \<open>
  The values the examples below are run on: two runs of the password hash (one that
  returns a given hash, one that fails), the rows of two ordinary users, three tables,
  and the bodies of two sign-ups and of two updates.
\<close>

definition bcrypt_returns :: "string \<Rightarrow> bcrypt" where
  "bcrypt_returns h password cost = Inr h"

definition bcrypt_fails :: bcrypt where
  "bcrypt_fails password cost = Inl HashError"

definition amy :: User where
  "amy = User \<lparr>ID = 1\<rparr> ''a@x.com'' ''$2a$12$amy'' [] [] ''amy'' True False False False
           None None None"

definition bob :: User where
  "bob = User \<lparr>ID = 2\<rparr> ''b@x.com'' ''$2a$12$bob'' [] [] ''bob'' False False False False
           None None None"

definition db_empty :: DB where
  "db_empty = \<lparr>users = [], last_id = 0, calls = []\<rparr>"

definition db_amy :: DB where
  "db_amy = \<lparr>users = [amy], last_id = 1, calls = []\<rparr>"

definition db_amy_bob :: DB where
  "db_amy_bob = \<lparr>users = [amy, bob], last_id = 2, calls = []\<rparr>"

definition signup_amy :: json where
  "signup_amy =
     JObject [(''username'', JString ''amy''), (''email'', JString ''a@x.com''),
              (''password'', JString ''pw''), (''is_artist'', JBool True)]"

definition signup_amy_privileged :: json where
  "signup_amy_privileged =
     JObject [(''username'', JString ''amy''), (''email'', JString ''a@x.com''),
              (''password'', JString ''pw''), (''is_staff'', JBool True),
              (''is_admin'', JBool True)]"

definition update_staff :: json where
  "update_staff =
     JObject [(''id'', JNumber (IntLit 1)), (''username'', JString ''amy''),
              (''email'', JString ''a@x.com''), (''is_staff'', JBool True)]"

definition update_bob :: json where
  "update_bob =
     JObject [(''id'', JNumber (IntLit 2)), (''username'', JString ''bob''),
              (''email'', JString ''bob@y.com'')]"

section \<open>What the handlers compute\<close>

text \<open>
  Binding through a \<^verbatim>\<open>nil\<close> pointer fails whatever the body is, and a lookup through
  a \<^verbatim>\<open>nil\<close> pointer leaves it \<^verbatim>\<open>nil\<close>. With these two facts the three handlers
  that declare \<^verbatim>\<open>var user *User\<close> reduce to their first two guards.
\<close>

lemma ShouldBindJSON_nil:
  "ShouldBindJSON um vd c None =
     Inl (case Body c of None \<Rightarrow> SyntaxError | Some j \<Rightarrow> InvalidUnmarshalError)"
  by (simp add: ShouldBindJSON_def split: option.split)

lemma db_First_nil: "db_First db None i = (None, called (Call_First i) db)"
  by (simp add: db_First_def)

lemma UpdateUser_unfold:
  "UpdateUser c db =
     (case Atoi (Param_id c) of
        Inl err \<Rightarrow>
          (String [ParamNumeric] StatusBadRequest ''Invalid ID: must be numerical'' [], db)
      | Inr i \<Rightarrow>
          (String [ParamNumeric, BodyBinds] StatusBadRequest ''Invalid body: ''
             [ErrorArg (case Body c of None \<Rightarrow> SyntaxError | Some j \<Rightarrow> InvalidUnmarshalError)],
           db))"
  by (simp add: UpdateUser_def ShouldBindJSON_nil split: sum.split)

lemma GetUser_unfold:
  "GetUser c db =
     (case Atoi (Param_id c) of
        Inl err \<Rightarrow>
          (String [ParamNumeric] StatusBadRequest ''ID must be numerical: '' [ErrorArg err], db)
      | Inr i \<Rightarrow>
          (String [ParamNumeric, TargetLoaded] StatusNotFound ''Invalid ID: not found'' [],
           called (Call_First i) db))"
  by (simp add: GetUser_def db_First_nil split: sum.split)

lemma DeleteUser_unfold:
  "DeleteUser c db =
     (case Atoi (Param_id c) of
        Inl err \<Rightarrow>
          (String [ParamNumeric] StatusBadRequest ''Invalid ID: must be numerical'' [], db)
      | Inr i \<Rightarrow>
          (String [ParamNumeric, TargetLoaded] StatusNotFound ''Not found'' [],
           called (Call_First i) db))"
  by (simp add: DeleteUser_def db_First_nil split: sum.split)

text \<open>
  \<^verbatim>\<open>CreateUser\<close> copies five fields into a zero \<^verbatim>\<open>User\<close>: its \<^verbatim>\<open>ID\<close> is
  blank and its \<^verbatim>\<open>Staff\<close> and \<^verbatim>\<open>Admin\<close> are false, so the guards of lines 146 and
  151 never answer.
\<close>

lemma CreateUser_unfold:
  "CreateUser h c db =
     (case ShouldBindJSON unmarshal_CreationUser validate_CreationUser c (Some zero_CreationUser) of
        Inl err \<Rightarrow> (String [BodyBinds] StatusBadRequest ''Invalid body: '' [ErrorArg err], db)
      | Inr ju \<Rightarrow>
          (case h (CreationUser.Password ju) 12 of
             Inl err \<Rightarrow>
               (String [BodyBinds, AlreadyPresent, PrivilegeFlags, PasswordHashed]
                  StatusInternalServerError [] [],
                db)
           | Inr pw \<Rightarrow>
               (Json [BodyBinds, AlreadyPresent, PrivilegeFlags, PasswordHashed] StatusOK
                  (marshal_User
                     (User \<lparr>ID = fresh_id db\<rparr> (CreationUser.Email ju) pw [] []
                        (CreationUser.Username ju) (CreationUser.Artist ju)
                        (CreationUser.Curator ju) False False None None None)),
                called Call_Create
                  (db\<lparr>users := users db @
                       [User \<lparr>ID = fresh_id db\<rparr> (CreationUser.Email ju) pw [] []
                          (CreationUser.Username ju) (CreationUser.Artist ju)
                          (CreationUser.Curator ju) False False None None None],
                      last_id := fresh_id db\<rparr>))))"
  by (simp add: CreateUser_def zero_User_def zero_Base_def db_NewRecord_def db_Create_def
      row_of_def Let_def split: sum.split)

section \<open>The examples, evaluated\<close>

lemma Atoi_1: "Atoi ''1'' = Inr 1"
  by (simp add: Atoi_def digit_def)

lemma Atoi_2: "Atoi ''2'' = Inr 2"
  by (simp add: Atoi_def digit_def)

lemma bind_signup_amy:
  "Body c = Some signup_amy \<Longrightarrow>
   ShouldBindJSON unmarshal_CreationUser validate_CreationUser c (Some zero_CreationUser) =
     Inr \<lparr>CreationUser.Email = ''a@x.com'', CreationUser.Password = ''pw'',
          CreationUser.Username = ''amy'', CreationUser.Artist = True,
          CreationUser.Curator = False\<rparr>"
  by (simp add: ShouldBindJSON_def signup_amy_def unmarshal_CreationUser_def unmarshal_struct_def
      store_CreationUser_def lower_def unmarshal_string_def unmarshal_bool_def
      saveError_def zero_CreationUser_def validate_CreationUser_def)

lemma bind_signup_amy_privileged:
  "Body c = Some signup_amy_privileged \<Longrightarrow>
   ShouldBindJSON unmarshal_CreationUser validate_CreationUser c (Some zero_CreationUser) =
     Inr \<lparr>CreationUser.Email = ''a@x.com'', CreationUser.Password = ''pw'',
          CreationUser.Username = ''amy'', CreationUser.Artist = False,
          CreationUser.Curator = False\<rparr>"
  by (simp add: ShouldBindJSON_def signup_amy_privileged_def unmarshal_CreationUser_def
      unmarshal_struct_def store_CreationUser_def lower_def unmarshal_string_def
      unmarshal_bool_def saveError_def zero_CreationUser_def validate_CreationUser_def)

text \<open>
  Bound to an allocated \<^verbatim>\<open>User\<close>, the update body would set \<^verbatim>\<open>Staff\<close>: the
  key \<^verbatim>\<open>is_staff\<close> is a key of \<^verbatim>\<open>User\<close>.
\<close>

lemma bind_update_staff:
  "Body c = Some update_staff \<Longrightarrow>
   ShouldBindJSON unmarshal_User validate_User c (Some zero_User) =
     Inr (User \<lparr>ID = 1\<rparr> ''a@x.com'' [] [] [] ''amy'' False False False True None None None)"
  by (simp add: ShouldBindJSON_def update_staff_def store_User_def lower_def
      unmarshal_string_def unmarshal_bool_def unmarshal_uint_def saveError_def zero_User_def
      zero_Base_def validate_User_def)

lemma fresh_id_samples: "fresh_id db_empty = 1" "fresh_id db_amy = 2" "fresh_id db_amy_bob = 3"
  by (simp_all add: fresh_id_def db_empty_def db_amy_def db_amy_bob_def amy_def bob_def)

section \<open>Keys the decoder skips\<close>

text \<open>
  Members whose key the struct's \<open>store\<close> function ignores can be removed from an
  object without changing what is decoded.
\<close>

lemma unmarshal_members_skip:
  assumes "\<And>k v x. k \<in> K \<Longrightarrow> store k v x = (x, None)"
  shows "unmarshal_members store (filter (\<lambda>m. foldName (fst m) \<notin> K) ms) x =
         unmarshal_members store ms x"
proof (induction ms arbitrary: x)
  case Nil
  show ?case by simp
next
  case (Cons m ms)
  obtain k v where m: "m = (k, v)" by (cases m)
  show ?case
  proof (cases "foldName k \<in> K")
    case True
    then show ?thesis
      using Cons.IH by (simp add: m assms saveError_def split: prod.split)
  next
    case False
    then show ?thesis
      using Cons.IH by (simp add: m split: prod.split)
  qed
qed

lemma store_User_is_admin: "store_User ''is_admin'' v aw u = (u, None)"
  by (simp add: store_User_def)

lemma unmarshal_User_members_skip:
  "unmarshal_User_members (filter (\<lambda>m. foldName (fst m) \<noteq> ''is_admin'') ms) u =
   unmarshal_User_members ms u"
proof (induction ms arbitrary: u)
  case Nil
  show ?case by simp
next
  case (Cons m ms)
  obtain k v where m: "m = (k, v)" by (cases m)
  show ?case
    using Cons.IH
    by (cases "foldName k = ''is_admin''")
       (simp_all add: m store_User_is_admin saveError_def split: prod.split)
qed

text \<open>No key stores into \<^verbatim>\<open>Admin\<close>: decoding leaves the field as it was.\<close>

lemma store_User_Admin: "Admin (fst (store_User k v aw u)) = Admin u"
  by (cases u) (simp add: store_User_def split: prod.split)

lemma unmarshal_User_members_Admin: "Admin (fst (unmarshal_User_members ms u)) = Admin u"
proof (induction ms arbitrary: u)
  case Nil
  show ?case by simp
next
  case (Cons m ms)
  obtain k v where m: "m = (k, v)" by (cases m)
  have "Admin (fst (store_User (foldName k) v (unmarshal_Artworks v (Artworks u)) u)) = Admin u"
    by (rule store_User_Admin)
  then show ?case
    using Cons.IH by (simp add: m split: prod.split) (metis fst_conv)
qed

lemma unmarshal_User_Admin: "Admin (fst (unmarshal_User j u)) = Admin u"
  by (cases j) (simp_all add: unmarshal_User_members_Admin)

lemma bind_User_Admin:
  assumes "ShouldBindJSON unmarshal_User validate_User c (Some u) = Inr u'"
  shows "Admin u' = Admin u"
proof -
  from assms obtain j e where "unmarshal_User j u = (u', e)"
    by (auto simp: ShouldBindJSON_def split: option.splits prod.splits)
  then show ?thesis
    using unmarshal_User_Admin [of j u] by simp
qed

lemma filter_is_admin_eq:
  assumes "filter (\<lambda>m. foldName (fst m) \<noteq> ''is_admin'') ms =
           filter (\<lambda>m. foldName (fst m) \<noteq> ''is_admin'') ms'"
  shows "unmarshal_members store_CreationUser ms x = unmarshal_members store_CreationUser ms' x"
    and "unmarshal_User_members ms u = unmarshal_User_members ms' u"
proof -
  have skip: "\<And>k v x. k \<in> {''is_admin''} \<Longrightarrow> store_CreationUser k v x = (x, None)"
    by (simp add: store_CreationUser_def)
  have "unmarshal_members store_CreationUser ms x =
        unmarshal_members store_CreationUser (filter (\<lambda>m. foldName (fst m) \<notin> {''is_admin''}) ms) x"
    using unmarshal_members_skip [of "{''is_admin''}" store_CreationUser ms x] skip by simp
  also have "\<dots> =
        unmarshal_members store_CreationUser (filter (\<lambda>m. foldName (fst m) \<notin> {''is_admin''}) ms') x"
    using assms by simp
  also have "\<dots> = unmarshal_members store_CreationUser ms' x"
    using unmarshal_members_skip [of "{''is_admin''}" store_CreationUser ms' x] skip by simp
  finally show "unmarshal_members store_CreationUser ms x = unmarshal_members store_CreationUser ms' x" .
  show "unmarshal_User_members ms u = unmarshal_User_members ms' u"
    using assms unmarshal_User_members_skip [of ms u] unmarshal_User_members_skip [of ms' u]
    by simp
qed

section \<open>The claims\<close>

subsection \<open>C1: privileged flags in a sign-up\<close>

text \<open>
  C1, the code at the failing input. An unauthenticated sign-up for \<^verbatim>\<open>amy\<close> whose
  body sets \<^verbatim>\<open>is_staff\<close> and \<^verbatim>\<open>is_admin\<close> to true. The claim, and the guard of
  lines 151-154 ("Cannot create admin user"), ask for a 403 and no record stored. The
  handler answers 200 and stores a row for \<^verbatim>\<open>amy\<close>: the guard tests
  \<^verbatim>\<open>user.Staff\<close> and \<^verbatim>\<open>user.Admin\<close>, which are never filled, because the body is
  bound to \<^verbatim>\<open>CreationUser\<close>, a struct without these fields.
\<close>

theorem CreateUser_privileged_body_accepted:
  "status (fst (CreateUser (bcrypt_returns ''$2a$12$hash'')
                  \<lparr>Param_id = [], Body = Some signup_amy_privileged, Claim_id = None\<rparr> db_empty))
     = StatusOK
   \<and> users (snd (CreateUser (bcrypt_returns ''$2a$12$hash'')
                  \<lparr>Param_id = [], Body = Some signup_amy_privileged, Claim_id = None\<rparr> db_empty))
     = [User \<lparr>ID = 1\<rparr> ''a@x.com'' ''$2a$12$hash'' [] [] ''amy'' False False False False
          None None None]"
  by (simp add: CreateUser_unfold bind_signup_amy_privileged bcrypt_returns_def fresh_id_samples
      called_def Json_def)
     (simp add: db_empty_def)

subsection \<open>C2: granting a privileged flag in an update\<close>

text \<open>
  C2, the code at the failing input. \<^verbatim>\<open>amy\<close> (id 1, neither staff nor admin) sends
  \<^verbatim>\<open>PUT /users/1\<close> with a body that sets \<^verbatim>\<open>is_staff\<close> to true. The claim asks for
  a \<^verbatim>\<open>PrivilegeEscalation\<close> answer (the 403 of line 225). The handler answers 400
  "Invalid body" at line 212, because the pointer it binds to is \<^verbatim>\<open>nil\<close>; the guard of
  line 224 is not reached. The table is unchanged.
\<close>

theorem UpdateUser_self_grant_invalid_body:
  "UpdateUser \<lparr>Param_id = ''1'', Body = Some update_staff, Claim_id = Some ''amy''\<rparr> db_amy =
     (String [ParamNumeric, BodyBinds] StatusBadRequest ''Invalid body: ''
        [ErrorArg InvalidUnmarshalError],
      db_amy)"
  by (simp add: UpdateUser_unfold Atoi_1)

subsection \<open>C3: a sign-up with a user name and an e-mail address already stored\<close>

text \<open>
  C3, the code at the failing input. The table holds \<^verbatim>\<open>amy\<close> with the address
  \<^verbatim>\<open>a@x.com\<close>; a sign-up with the same user name and address is answered 200, and a
  second row with that user name and address is stored. The guard of line 146 asks
  \<^verbatim>\<open>db.NewRecord\<close>, which looks at the primary key of the new record only, and that
  key is always blank.
\<close>

theorem CreateUser_duplicate_stored:
  "CreateUser (bcrypt_returns ''$2a$12$other'')
     \<lparr>Param_id = [], Body = Some signup_amy, Claim_id = None\<rparr> db_amy =
     (Json [BodyBinds, AlreadyPresent, PrivilegeFlags, PasswordHashed] StatusOK
        (marshal_User
           (User \<lparr>ID = 2\<rparr> ''a@x.com'' ''$2a$12$other'' [] [] ''amy'' True False False False
              None None None)),
      \<lparr>users =
         [User \<lparr>ID = 1\<rparr> ''a@x.com'' ''$2a$12$amy'' [] [] ''amy'' True False False False
            None None None,
          User \<lparr>ID = 2\<rparr> ''a@x.com'' ''$2a$12$other'' [] [] ''amy'' True False False False
            None None None],
       last_id = 2, calls = [Call_Create]\<rparr>)"
  by (simp add: CreateUser_unfold bind_signup_amy bcrypt_returns_def fresh_id_samples called_def)
     (simp add: db_amy_def amy_def)

subsection \<open>C5: an update of another user's record\<close>

text \<open>
  C5, the code at the failing input. \<^verbatim>\<open>amy\<close> (id 1, neither staff nor admin) sends
  \<^verbatim>\<open>PUT /users/2\<close>, an update of the record of \<^verbatim>\<open>bob\<close>. The claim, and the guard
  of lines 233-236 ("Cannot alter foreign user"), ask for a denial. The handler answers
  400 "Invalid body" at line 212, because the pointer it binds to is \<^verbatim>\<open>nil\<close>, and the
  guard of line 233 is not reached: the answer is not a verdict on who is acting, and
  \<^verbatim>\<open>bob\<close> gets the very same answer to the same update of his own record. Nothing
  is written in either case.
\<close>

theorem UpdateUser_foreign_target_invalid_body:
  "UpdateUser \<lparr>Param_id = ''2'', Body = Some update_bob, Claim_id = Some ''amy''\<rparr> db_amy_bob =
     (String [ParamNumeric, BodyBinds] StatusBadRequest ''Invalid body: ''
        [ErrorArg InvalidUnmarshalError],
      db_amy_bob)
   \<and> UpdateUser \<lparr>Param_id = ''2'', Body = Some update_bob, Claim_id = Some ''bob''\<rparr> db_amy_bob =
     (String [ParamNumeric, BodyBinds] StatusBadRequest ''Invalid body: ''
        [ErrorArg InvalidUnmarshalError],
      db_amy_bob)"
  by (simp add: UpdateUser_unfold Atoi_2)

subsection \<open>C6: deleting one's own record\<close>

text \<open>
  C6, the code at the failing input. \<^verbatim>\<open>amy\<close> (id 1) sends \<^verbatim>\<open>DELETE /users/1\<close>.
  The claim (and the comment of the handler: "deletes a user (must be the user
  themselves)") asks for success and the row removed. The handler answers 404
  "Not found" at line 183, because the pointer it looked the row up with is \<^verbatim>\<open>nil\<close>;
  the row of \<^verbatim>\<open>amy\<close> is still in the table.
\<close>

theorem DeleteUser_self_not_found:
  "DeleteUser \<lparr>Param_id = ''1'', Body = None, Claim_id = Some ''amy''\<rparr> db_amy =
     (String [ParamNumeric, TargetLoaded] StatusNotFound ''Not found'' [],
      \<lparr>users = [amy], last_id = 1, calls = [Call_First 1]\<rparr>)"
  by (simp add: DeleteUser_unfold Atoi_1 called_def db_amy_def)

subsection \<open>C7: resolving the session claim\<close>

text \<open>
  C7, the code at the failing input. An authenticated \<^verbatim>\<open>GET /me\<close> whose claim names
  \<^verbatim>\<open>ghost\<close>, a user name no row has (the token of a user deleted since, say). The
  claim asks for \<^verbatim>\<open>NotFound\<close>, treated as an authentication failure, and never a
  zero-valued user with success. \<^verbatim>\<open>GetMe\<close> makes its one lookup, drops the result of
  \<^verbatim>\<open>First\<close> and answers 200 with the zero-valued user; \<^verbatim>\<open>GetUser\<close>, next to it,
  has a 404 for a lookup that finds nothing.
\<close>

theorem GetMe_unknown_subject_zero_user:
  "GetMe \<lparr>Param_id = [], Body = None, Claim_id = Some ''ghost''\<rparr> db_amy =
     (Json [] StatusOK (marshal_User zero_User),
      \<lparr>users = [amy], last_id = 1, calls = [Call_Where_First (Some ''ghost'')]\<rparr>)"
  by (simp add: GetMe_def db_Where_username_First_def first_row_def db_amy_def amy_def called_def)

subsection \<open>C8: the password of a new user\<close>

text \<open>
  C8. For every sign-up whose body binds (to \<open>ju\<close>): when
  \<^verbatim>\<open>bcrypt.GenerateFromPassword\<close>, called on the password with cost 12, returns a
  hash, the answer is 200, the row stored holds that hash as its password (and nothing
  else of the password), and the response is an object none of whose keys is
  \<^verbatim>\<open>password\<close>, in any letter case; when the hashing fails, the answer is 500 and the
  handle is as it was, so nothing unhashed is stored.
\<close>

theorem CreateUser_stores_hash:
  assumes "ShouldBindJSON unmarshal_CreationUser validate_CreationUser c (Some zero_CreationUser)
             = Inr ju"
  shows "(\<forall>pw. GenerateFromPassword (CreationUser.Password ju) 12 = Inr pw \<longrightarrow>
            status (fst (CreateUser GenerateFromPassword c db)) = StatusOK
          \<and> users (snd (CreateUser GenerateFromPassword c db)) =
              users db @
                [User \<lparr>ID = fresh_id db\<rparr> (CreationUser.Email ju) pw [] []
                   (CreationUser.Username ju) (CreationUser.Artist ju) (CreationUser.Curator ju)
                   False False None None None]
          \<and> (\<exists>ms. payload (fst (CreateUser GenerateFromPassword c db)) = JSON (JObject ms)
                \<and> ''password'' \<notin> set (map foldName (map fst ms))))
       \<and> (\<forall>err. GenerateFromPassword (CreationUser.Password ju) 12 = Inl err \<longrightarrow>
            status (fst (CreateUser GenerateFromPassword c db)) = StatusInternalServerError
          \<and> snd (CreateUser GenerateFromPassword c db) = db)"
  using assms
  by (simp add: CreateUser_unfold Json_def String_def called_def marshal_uint_def lower_def)

text \<open>
  C8, a witness: scenario A of the spec. The sign-up of \<^verbatim>\<open>amy\<close> with the password
  \<^verbatim>\<open>pw\<close> binds; with a hashing that returns a hash the answer is 200 and the password
  stored is the hash, not \<^verbatim>\<open>pw\<close>; with a hashing that fails the answer is 500 and the
  table is still empty.
\<close>

theorem CreateUser_stores_hash_witness:
  "ShouldBindJSON unmarshal_CreationUser validate_CreationUser
     \<lparr>Param_id = [], Body = Some signup_amy, Claim_id = None\<rparr> (Some zero_CreationUser)
     = Inr \<lparr>CreationUser.Email = ''a@x.com'', CreationUser.Password = ''pw'',
            CreationUser.Username = ''amy'', CreationUser.Artist = True,
            CreationUser.Curator = False\<rparr>
   \<and> status (fst (CreateUser (bcrypt_returns ''$2a$12$hash'')
                    \<lparr>Param_id = [], Body = Some signup_amy, Claim_id = None\<rparr> db_empty)) = StatusOK
   \<and> users (snd (CreateUser (bcrypt_returns ''$2a$12$hash'')
                    \<lparr>Param_id = [], Body = Some signup_amy, Claim_id = None\<rparr> db_empty)) =
       [User \<lparr>ID = 1\<rparr> ''a@x.com'' ''$2a$12$hash'' [] [] ''amy'' True False False False
          None None None]
   \<and> map Password
       (users (snd (CreateUser (bcrypt_returns ''$2a$12$hash'')
                      \<lparr>Param_id = [], Body = Some signup_amy, Claim_id = None\<rparr> db_empty)))
       \<noteq> [''pw'']
   \<and> status (fst (CreateUser bcrypt_fails
                    \<lparr>Param_id = [], Body = Some signup_amy, Claim_id = None\<rparr> db_empty))
       = StatusInternalServerError
   \<and> snd (CreateUser bcrypt_fails
             \<lparr>Param_id = [], Body = Some signup_amy, Claim_id = None\<rparr> db_empty) = db_empty"
proof -
  let ?c = "\<lparr>Param_id = [], Body = Some signup_amy, Claim_id = None\<rparr>"
  let ?ju = "\<lparr>CreationUser.Email = ''a@x.com'', CreationUser.Password = ''pw'',
            CreationUser.Username = ''amy'', CreationUser.Artist = True,
            CreationUser.Curator = False\<rparr>"
  have b: "ShouldBindJSON unmarshal_CreationUser validate_CreationUser ?c (Some zero_CreationUser)
             = Inr ?ju"
    by (simp add: bind_signup_amy)
  have e: "users db_empty = []" by (simp add: db_empty_def)
  show ?thesis
    using b
      CreateUser_stores_hash [OF b, of "bcrypt_returns ''$2a$12$hash''" db_empty]
      CreateUser_stores_hash [OF b, of bcrypt_fails db_empty]
    by (simp add: bcrypt_returns_def bcrypt_fails_def fresh_id_samples e)
qed

subsection \<open>C9: the admin flag and the request body\<close>

text \<open>
  C9. Two request bodies that differ only in members with the key \<^verbatim>\<open>is_admin\<close>
  (in any letter case) bind alike, to \<^verbatim>\<open>CreationUser\<close> and to \<^verbatim>\<open>User\<close>, through
  any pointer, and \<^verbatim>\<open>CreateUser\<close> and \<^verbatim>\<open>UpdateUser\<close> give the same result on
  them. Binding to a \<^verbatim>\<open>User\<close> leaves \<^verbatim>\<open>Admin\<close> as it was, whatever the body.
  \<^verbatim>\<open>is_staff\<close> is not excluded in this way: bound to an allocated \<^verbatim>\<open>User\<close>, the
  update body of the examples sets \<^verbatim>\<open>Staff\<close>.
\<close>

theorem is_admin_never_bound:
  assumes "filter (\<lambda>m. foldName (fst m) \<noteq> ''is_admin'') ms =
           filter (\<lambda>m. foldName (fst m) \<noteq> ''is_admin'') ms'"
  shows "ShouldBindJSON unmarshal_CreationUser validate_CreationUser
           (c\<lparr>Body := Some (JObject ms)\<rparr>) p =
         ShouldBindJSON unmarshal_CreationUser validate_CreationUser
           (c\<lparr>Body := Some (JObject ms')\<rparr>) p
       \<and> ShouldBindJSON unmarshal_User validate_User (c\<lparr>Body := Some (JObject ms)\<rparr>) q =
         ShouldBindJSON unmarshal_User validate_User (c\<lparr>Body := Some (JObject ms')\<rparr>) q
       \<and> CreateUser h (c\<lparr>Body := Some (JObject ms)\<rparr>) db =
         CreateUser h (c\<lparr>Body := Some (JObject ms')\<rparr>) db
       \<and> UpdateUser (c\<lparr>Body := Some (JObject ms)\<rparr>) db =
         UpdateUser (c\<lparr>Body := Some (JObject ms')\<rparr>) db
       \<and> (\<forall>c' u u'. ShouldBindJSON unmarshal_User validate_User c' (Some u) = Inr u'
             \<longrightarrow> Admin u' = Admin u)
       \<and> ShouldBindJSON unmarshal_User validate_User
           \<lparr>Param_id = ''1'', Body = Some update_staff, Claim_id = Some ''amy''\<rparr> (Some zero_User) =
         Inr (User \<lparr>ID = 1\<rparr> ''a@x.com'' [] [] [] ''amy'' False False False True None None None)"
proof -
  have 1: "ShouldBindJSON unmarshal_CreationUser validate_CreationUser
           (c\<lparr>Body := Some (JObject ms)\<rparr>) p =
         ShouldBindJSON unmarshal_CreationUser validate_CreationUser
           (c\<lparr>Body := Some (JObject ms')\<rparr>) p" for p
    by (simp add: ShouldBindJSON_def unmarshal_CreationUser_def unmarshal_struct_def
        filter_is_admin_eq(1) [OF assms] split: option.split)
  have 2: "ShouldBindJSON unmarshal_User validate_User (c\<lparr>Body := Some (JObject ms)\<rparr>) q =
         ShouldBindJSON unmarshal_User validate_User (c\<lparr>Body := Some (JObject ms')\<rparr>) q"
    by (simp add: ShouldBindJSON_def filter_is_admin_eq(2) [OF assms] split: option.split)
  have 3: "CreateUser h (c\<lparr>Body := Some (JObject ms)\<rparr>) db =
         CreateUser h (c\<lparr>Body := Some (JObject ms')\<rparr>) db"
    by (simp only: CreateUser_unfold 1)
  have 4: "UpdateUser (c\<lparr>Body := Some (JObject ms)\<rparr>) db =
         UpdateUser (c\<lparr>Body := Some (JObject ms')\<rparr>) db"
    by (simp add: UpdateUser_unfold split: sum.split)
  have 5: "\<forall>c' u u'. ShouldBindJSON unmarshal_User validate_User c' (Some u) = Inr u'
             \<longrightarrow> Admin u' = Admin u"
    using bind_User_Admin by blast
  have 6: "ShouldBindJSON unmarshal_User validate_User
           \<lparr>Param_id = ''1'', Body = Some update_staff, Claim_id = Some ''amy''\<rparr> (Some zero_User) =
         Inr (User \<lparr>ID = 1\<rparr> ''a@x.com'' [] [] [] ''amy'' False False False True None None None)"
    by (simp add: bind_update_staff)
  from 1 2 3 4 5 6 show ?thesis by blast
qed

text \<open>
  C9, a witness: the sign-up of \<^verbatim>\<open>amy\<close> with and without the member
  \<^verbatim>\<open>"is_admin": true\<close>.
\<close>

theorem is_admin_never_bound_witness:
  "filter (\<lambda>m. foldName (fst m) \<noteq> ''is_admin'')
     [(''username'', JString ''amy''), (''email'', JString ''a@x.com''),
      (''password'', JString ''pw''), (''is_admin'', JBool True)] =
   filter (\<lambda>m. foldName (fst m) \<noteq> ''is_admin'')
     [(''username'', JString ''amy''), (''email'', JString ''a@x.com''),
      (''password'', JString ''pw'')]
   \<and> CreateUser (bcrypt_returns ''$2a$12$hash'')
       \<lparr>Param_id = [],
        Body = Some (JObject [(''username'', JString ''amy''), (''email'', JString ''a@x.com''),
                              (''password'', JString ''pw''), (''is_admin'', JBool True)]),
        Claim_id = None\<rparr> db_empty =
     CreateUser (bcrypt_returns ''$2a$12$hash'')
       \<lparr>Param_id = [],
        Body = Some (JObject [(''username'', JString ''amy''), (''email'', JString ''a@x.com''),
                              (''password'', JString ''pw'')]),
        Claim_id = None\<rparr> db_empty
   \<and> Admin (User \<lparr>ID = 1\<rparr> ''a@x.com'' [] [] [] ''amy'' False False False True None None None)
       = Admin zero_User"
proof -
  let ?ms = "[(''username'', JString ''amy''), (''email'', JString ''a@x.com''),
      (''password'', JString ''pw''), (''is_admin'', JBool True)]"
  let ?ms' = "[(''username'', JString ''amy''), (''email'', JString ''a@x.com''),
      (''password'', JString ''pw'')]"
  have a: "filter (\<lambda>m. foldName (fst m) \<noteq> ''is_admin'') ?ms =
           filter (\<lambda>m. foldName (fst m) \<noteq> ''is_admin'') ?ms'"
    by (simp add: lower_def)
  show ?thesis
    using a
      is_admin_never_bound [OF a,
        of "\<lparr>Param_id = [], Body = None, Claim_id = None\<rparr>" _ _ "bcrypt_returns ''$2a$12$hash''"
           db_empty]
    by (simp add: zero_User_def)
qed

subsection \<open>C10: the pointer that is never allocated\<close>

text \<open>
  C10. \<^verbatim>\<open>GetUser\<close>, \<^verbatim>\<open>DeleteUser\<close> and \<^verbatim>\<open>UpdateUser\<close> work on a \<^verbatim>\<open>nil\<close>
  \<^verbatim>\<open>*User\<close> that is never allocated. For every request whose \<^verbatim>\<open>id\<close> parameter is
  a number, the pointer is still \<^verbatim>\<open>nil\<close> after the lookup, \<^verbatim>\<open>GetUser\<close> and
  \<^verbatim>\<open>DeleteUser\<close> answer 404 and no row is deleted, and \<^verbatim>\<open>UpdateUser\<close> answers
  400 "Invalid body" whatever the body is. For every request at all (\<open>c'\<close>, \<open>db'\<close>),
  none of the three handlers answers 200 and none changes the table: their success and
  mutation branches are unreachable.
\<close>

theorem nil_user_pointer:
  assumes "Atoi (Param_id c) = Inr i"
  shows "fst (db_First db None i) = None
       \<and> GetUser c db =
           (String [ParamNumeric, TargetLoaded] StatusNotFound ''Invalid ID: not found'' [],
            called (Call_First i) db)
       \<and> DeleteUser c db =
           (String [ParamNumeric, TargetLoaded] StatusNotFound ''Not found'' [],
            called (Call_First i) db)
       \<and> users (snd (DeleteUser c db)) = users db
       \<and> UpdateUser c db =
           (String [ParamNumeric, BodyBinds] StatusBadRequest ''Invalid body: ''
              [ErrorArg (case Body c of None \<Rightarrow> SyntaxError | Some j \<Rightarrow> InvalidUnmarshalError)],
            db)
       \<and> status (fst (GetUser c' db')) \<noteq> StatusOK
       \<and> status (fst (DeleteUser c' db')) \<noteq> StatusOK
       \<and> status (fst (UpdateUser c' db')) \<noteq> StatusOK
       \<and> users (snd (GetUser c' db')) = users db'
       \<and> users (snd (DeleteUser c' db')) = users db'
       \<and> users (snd (UpdateUser c' db')) = users db'"
  using assms
  by (simp add: GetUser_unfold DeleteUser_unfold UpdateUser_unfold db_First_nil called_def
      String_def split: sum.split)

theorem nil_user_pointer_witness:
  "Atoi (Param_id \<lparr>Param_id = ''1'', Body = Some update_staff, Claim_id = Some ''amy''\<rparr>) = Inr 1
   \<and> GetUser \<lparr>Param_id = ''1'', Body = Some update_staff, Claim_id = Some ''amy''\<rparr> db_amy =
       (String [ParamNumeric, TargetLoaded] StatusNotFound ''Invalid ID: not found'' [],
        called (Call_First 1) db_amy)
   \<and> DeleteUser \<lparr>Param_id = ''1'', Body = Some update_staff, Claim_id = Some ''amy''\<rparr> db_amy =
       (String [ParamNumeric, TargetLoaded] StatusNotFound ''Not found'' [],
        called (Call_First 1) db_amy)
   \<and> UpdateUser \<lparr>Param_id = ''1'', Body = Some update_staff, Claim_id = Some ''amy''\<rparr> db_amy =
       (String [ParamNumeric, BodyBinds] StatusBadRequest ''Invalid body: ''
          [ErrorArg InvalidUnmarshalError],
        db_amy)"
proof -
  have a: "Atoi (Param_id \<lparr>Param_id = ''1'', Body = Some update_staff, Claim_id = Some ''amy''\<rparr>) = Inr 1"
    by (simp add: Atoi_1)
  show ?thesis
    using a nil_user_pointer [OF a, of db_amy] by simp
qed

end
